theory Spec2Isabelle
  imports Complex_Main "HOL-Library.Word" "HOL-Library.Multiset"
begin

text \<open>
  A shallow embedding of the movers recommendation service: an in-memory slice of mover
  records behind four HTTP handlers (list, create, delete, review). The repository holds
  three iterations of the same program. The model follows the most complete one (with
  \<^verbatim>\<open>sortMoversByRatingAndId\<close>, \<^verbatim>\<open>checkMoverExists\<close> and \<^verbatim>\<open>checkMoverTelNumber\<close>); the review
  arithmetic and its range check are the same in all three, and the listing of
  \<^verbatim>\<open>main.go\<close>, which sorts the store itself, is modelled beside it.
\<close>

section \<open>Data model\<close>

subsection \<open>Go's float64\<close>

text \<open>
  A \<^verbatim>\<open>float64\<close> is either a finite number, one of the two infinities, or NaN.
  The special values follow IEEE 754 as Go implements it: a comparison with NaN is
  false, a nonzero number divided by zero is an infinity, zero divided by zero is NaN.
  Finite values carry exact real arithmetic: the rounding of binary64 and the overflow
  of a finite result to an infinity are not part of this model. Zero carries no sign; the
  only divisor the program forms is \<^verbatim>\<open>float64(totalJobs) + 1\<close>, which is \<open>+0\<close> whenever
  it is zero, so a division by zero is a division by \<open>+0\<close>.
\<close>

datatype f64 = Finite real | PosInf | NegInf | NaN

fun fnegative :: "f64 \<Rightarrow> bool" where
  "fnegative (Finite a) = (a < 0)"
| "fnegative PosInf = False"
| "fnegative NegInf = True"
| "fnegative NaN = False"

fun fmul :: "f64 \<Rightarrow> f64 \<Rightarrow> f64" where
  "fmul (Finite a) (Finite b) = Finite (a * b)"
| "fmul NaN b = NaN"
| "fmul a NaN = NaN"
| "fmul a b =
     (if a = Finite 0 \<or> b = Finite 0 then NaN
      else if fnegative a = fnegative b then PosInf else NegInf)"

fun fadd :: "f64 \<Rightarrow> f64 \<Rightarrow> f64" where
  "fadd (Finite a) (Finite b) = Finite (a + b)"
| "fadd NaN b = NaN"
| "fadd a NaN = NaN"
| "fadd PosInf NegInf = NaN"
| "fadd NegInf PosInf = NaN"
| "fadd PosInf b = PosInf"
| "fadd a PosInf = PosInf"
| "fadd NegInf b = NegInf"
| "fadd a NegInf = NegInf"

fun fdiv :: "f64 \<Rightarrow> f64 \<Rightarrow> f64" where
  "fdiv (Finite a) (Finite b) =
     (if b = 0 then (if a = 0 then NaN else if 0 < a then PosInf else NegInf)
      else Finite (a / b))"
| "fdiv NaN b = NaN"
| "fdiv a NaN = NaN"
| "fdiv (Finite a) b = Finite 0"
| "fdiv a (Finite b) = (if fnegative a = (b < 0) then PosInf else NegInf)"
| "fdiv a b = NaN"

text \<open>The comparisons \<^verbatim>\<open><\<close>, \<^verbatim>\<open>==\<close>, \<^verbatim>\<open>>\<close>, \<^verbatim>\<open><=\<close> and \<^verbatim>\<open>>=\<close> of Go on float64.\<close>

fun flt :: "f64 \<Rightarrow> f64 \<Rightarrow> bool" where
  "flt (Finite a) (Finite b) = (a < b)"
| "flt NaN b = False"
| "flt a NaN = False"
| "flt a NegInf = False"
| "flt NegInf b = True"
| "flt PosInf b = False"
| "flt a PosInf = True"

fun feq :: "f64 \<Rightarrow> f64 \<Rightarrow> bool" where
  "feq NaN b = False"
| "feq a NaN = False"
| "feq a b = (a = b)"

definition fgt :: "f64 \<Rightarrow> f64 \<Rightarrow> bool" where
  "fgt a b = flt b a"

definition fle :: "f64 \<Rightarrow> f64 \<Rightarrow> bool" where
  "fle a b = (flt a b \<or> feq a b)"

definition fge :: "f64 \<Rightarrow> f64 \<Rightarrow> bool" where
  "fge a b = fle b a"

subsection \<open>Go's int\<close>

text \<open>
  \<^verbatim>\<open>int\<close> is a 64-bit two's complement integer. \<^verbatim>\<open>JobsAmount\<close> is incremented, so it is
  a 64-bit word whose \<open>+\<close> wraps as Go's does, read as a signed number by \<open>sint\<close>.
  \<^verbatim>\<open>ID\<close> is only compared and never computed with, so it is an \<open>int\<close>.
\<close>

definition float64 :: "64 word \<Rightarrow> f64" where
  "float64 n = Finite (real_of_int (sint n))"

subsection \<open>The mover struct and the responses\<close>

record mover =
  ID :: int
  Name :: string
  Rating :: f64
  TelephoneNumber :: string
  JobsAmount :: "64 word"

text \<open>
  A response is one call of \<^verbatim>\<open>context.JSON(status, body)\<close>. A handler returns the list of
  its calls in order, with the store it leaves behind. \<^verbatim>\<open>gin.H{"error": s}\<close> is \<open>ErrorH s\<close>
  and \<^verbatim>\<open>gin.H{"message": s}\<close> is \<open>MessageH s\<close>.
\<close>

datatype body = ErrorH string | MessageH string | MoverBody mover | MoversBody "mover list"

type_synonym response = "nat \<times> body"

definition StatusOK :: nat where "StatusOK = 200"
definition StatusCreated :: nat where "StatusCreated = 201"
definition StatusBadRequest :: nat where "StatusBadRequest = 400"
definition StatusNotFound :: nat where "StatusNotFound = 404"
definition StatusExpectationFailed :: nat where "StatusExpectationFailed = 417"

section \<open>Helper functions\<close>

text \<open>
  The global slice \<^verbatim>\<open>movers\<close> is the first argument of every function that reads it.
  \<^verbatim>\<open>strconv.Atoi\<close> and \<^verbatim>\<open>context.BindJSON\<close> belong to libraries: a handler receives
  their outcome, \<open>None\<close> when they return an error.
\<close>

fun extractId :: "int option \<Rightarrow> response list \<times> int option" where
  "extractId None = ([(StatusBadRequest, MessageH ''Conversion error'')], None)"
| "extractId (Some MoverId) = ([], Some MoverId)"

text \<open>
  \<^verbatim>\<open>getMoverById\<close> returns the pointer \<^verbatim>\<open>&movers[i]\<close> of the first record with the
  identifier: the model returns the index \<open>i\<close>, and a write through the pointer is a
  list update at \<open>i\<close>.
\<close>

fun getMoverById :: "mover list \<Rightarrow> int \<Rightarrow> nat option" where
  "getMoverById [] i = None"
| "getMoverById (m # ms) i =
     (if ID m = i then Some 0 else map_option Suc (getMoverById ms i))"

fun findMoverIndexById :: "mover list \<Rightarrow> int \<Rightarrow> nat option" where
  "findMoverIndexById [] i = None"
| "findMoverIndexById (m # ms) i =
     (if ID m = i then Some 0 else map_option Suc (findMoverIndexById ms i))"

text \<open>\<^verbatim>\<open>slices.Delete(slice, index, index+1)\<close>; the index always comes from
  \<open>findMoverIndexById\<close>, so it is in range.\<close>

definition deleteElement :: "mover list \<Rightarrow> nat \<Rightarrow> mover list" where
  "deleteElement xs index = take index xs @ drop (index + 1) xs"

fun checkMoverExists :: "mover list \<Rightarrow> mover \<Rightarrow> bool" where
  "checkMoverExists [] newMover = False"
| "checkMoverExists (existingMover # ms) newMover =
     (if ID existingMover = ID newMover \<or> Name existingMover = Name newMover then True
      else checkMoverExists ms newMover)"

fun checkMoverTelNumber :: "mover list \<Rightarrow> mover \<Rightarrow> bool" where
  "checkMoverTelNumber [] newMover = False"
| "checkMoverTelNumber (existingMover # ms) newMover =
     (if TelephoneNumber existingMover = TelephoneNumber newMover then True
      else checkMoverTelNumber ms newMover)"

section \<open>Handlers\<close>

text \<open>
  POST /movers/:id/review (\<^verbatim>\<open>recommendMover\<close>). \<open>newRating\<close> is the right-hand side of
  the assignment to \<^verbatim>\<open>existingMover.Rating\<close>, with the operations in the order of the
  source: multiply, add the review, divide by \<^verbatim>\<open>float64(totalJobs) + 1\<close>.
\<close>

definition newRating :: "mover \<Rightarrow> f64 \<Rightarrow> f64" where
  "newRating existingMover r =
     (let totalJobs = JobsAmount existingMover
      in fdiv (fadd (fmul (Rating existingMover) (float64 totalJobs)) r)
              (fadd (float64 totalJobs) (Finite 1)))"

definition recommendMover ::
    "mover list \<Rightarrow> int option \<Rightarrow> mover option \<Rightarrow> mover list \<times> response list" where
  "recommendMover movers idParam json =
     (case extractId idParam of
        (w, None) \<Rightarrow> (movers, w @ [(StatusNotFound, ErrorH ''Extracting ID error'')])
      | (w, Some MoverId) \<Rightarrow>
          (case getMoverById movers MoverId of
             None \<Rightarrow> (movers, w @ [(StatusNotFound, MessageH ''Mover not found'')])
           | Some i \<Rightarrow>
               (case json of
                  None \<Rightarrow> (movers, w @ [(StatusBadRequest, ErrorH ''Invalid JSON'')])
                | Some updatedRating \<Rightarrow>
                    if fge (Rating updatedRating) (Finite 0) \<and> fle (Rating updatedRating) (Finite 5)
                    then
                      (let existingMover = movers ! i;
                           updated = existingMover
                             \<lparr>Rating := newRating existingMover (Rating updatedRating),
                              JobsAmount := JobsAmount existingMover + 1\<rparr>
                       in (movers[i := updated], w @ [(StatusOK, MoverBody updated)]))
                    else
                      (movers, w @ [(StatusExpectationFailed,
                         ErrorH ''Provided rate should be in range between 0 and 5'')]))))"

text \<open>POST /movers (\<^verbatim>\<open>addMover\<close>).\<close>

definition addMover :: "mover list \<Rightarrow> mover option \<Rightarrow> mover list \<times> response list" where
  "addMover movers json =
     (case json of
        None \<Rightarrow> (movers, [(StatusBadRequest, ErrorH ''Invalid JSON'')])
      | Some newMover \<Rightarrow>
          if checkMoverExists movers newMover
          then (movers, [(StatusNotFound, ErrorH ''Mover already exists'')])
          else if checkMoverTelNumber movers newMover
          then (movers, [(StatusNotFound, ErrorH ''Tel. number is occupied'')])
          else (movers @ [newMover], [(StatusCreated, MoverBody newMover)]))"

text \<open>DELETE /movers/:id (\<^verbatim>\<open>deleteMover\<close>).\<close>

definition deleteMover :: "mover list \<Rightarrow> int option \<Rightarrow> mover list \<times> response list" where
  "deleteMover movers idParam =
     (case extractId idParam of
        (w, None) \<Rightarrow> (movers, w @ [(StatusNotFound, ErrorH ''Extracting ID error'')])
      | (w, Some MoverId) \<Rightarrow>
          (case findMoverIndexById movers MoverId of
             None \<Rightarrow> (movers, w @ [(StatusNotFound, MessageH ''Mover not found'')])
           | Some moverIndex \<Rightarrow>
               (deleteElement movers moverIndex,
                w @ [(StatusOK, MessageH ''Mover deleted successfully'')])))"

section \<open>Ranking\<close>

text \<open>
  The closure given to \<^verbatim>\<open>sort.Slice\<close>: \<open>moverLess a b\<close> is \<^verbatim>\<open>less(i, j)\<close> when \<open>a\<close> and \<open>b\<close>
  are the elements at \<open>i\<close> and \<open>j\<close> of the slice being sorted.
\<close>

definition moverLess :: "mover \<Rightarrow> mover \<Rightarrow> bool" where
  "moverLess a b =
     (if feq (Rating a) (Rating b) then ID a < ID b else fgt (Rating a) (Rating b))"

text \<open>
  \<^verbatim>\<open>sort.Slice\<close> belongs to Go's library and is not stable. On a slice of at most 12
  elements it runs the insertion sort \<^verbatim>\<open>insertionSortLessFunc\<close>:
  \<^verbatim>\<open>
  for i := a + 1; i < b; i++ {
      for j := i; j > a && data.Less(j, j-1); j-- { data.Swap(j, j-1) }
  }
  \<close>
  On a longer slice it runs a pattern-defeating quicksort. The model is the insertion
  sort; any other sort returns the same slice whenever no rating is NaN and the
  identifiers are distinct, since then only one permutation is ordered (lemma
  \<open>sortMoversByRatingAndId_unique\<close> below).
  \<open>insertLeft lessFn x rp\<close> is the inner loop: \<open>rp\<close> is the part of the slice to the left of
  \<open>x\<close>, nearest element first, and \<open>x\<close> moves left while it is less than its neighbour.
\<close>

fun insertLeft :: "('a \<Rightarrow> 'a \<Rightarrow> bool) \<Rightarrow> 'a \<Rightarrow> 'a list \<Rightarrow> 'a list" where
  "insertLeft lessFn x [] = [x]"
| "insertLeft lessFn x (y # rp) =
     (if lessFn x y then y # insertLeft lessFn x rp else x # y # rp)"

fun insertionLoop :: "('a \<Rightarrow> 'a \<Rightarrow> bool) \<Rightarrow> 'a list \<Rightarrow> 'a list \<Rightarrow> 'a list" where
  "insertionLoop lessFn rp [] = rev rp"
| "insertionLoop lessFn rp (x # xs) = insertionLoop lessFn (insertLeft lessFn x rp) xs"

definition insertionSortLessFunc :: "('a \<Rightarrow> 'a \<Rightarrow> bool) \<Rightarrow> 'a list \<Rightarrow> 'a list" where
  "insertionSortLessFunc lessFn xs = insertionLoop lessFn [] xs"

text \<open>
  \<^verbatim>\<open>sortMoversByRatingAndId\<close> as a function of the contents of its argument: the contents
  of the slice it returns.
\<close>

definition sortMoversByRatingAndId :: "mover list \<Rightarrow> mover list" where
  "sortMoversByRatingAndId movers = insertionSortLessFunc moverLess movers"

section \<open>Listing, with the slices in memory\<close>

text \<open>
  A slice shares its backing array with every copy of the slice value, and
  \<^verbatim>\<open>sort.Slice\<close> sorts that array in place. Memory maps the address of a backing array to
  its contents; a slice value is the address (all slices here span their whole array).
  Addresses below \<open>nextFree\<close> are allocated. The global \<^verbatim>\<open>movers\<close> is one such address.
\<close>

record memory =
  arrays :: "nat \<Rightarrow> mover list"
  nextFree :: nat

definition zeroMover :: mover where
  "zeroMover = \<lparr>ID = 0, Name = [], Rating = Finite 0, TelephoneNumber = [], JobsAmount = 0\<rparr>"

text \<open>\<^verbatim>\<open>make([]mover, n)\<close>\<close>

definition makeSlice :: "memory \<Rightarrow> nat \<Rightarrow> memory \<times> nat" where
  "makeSlice mem n =
     (mem\<lparr>arrays := (arrays mem)(nextFree mem := replicate n zeroMover),
          nextFree := nextFree mem + 1\<rparr>,
      nextFree mem)"

text \<open>\<^verbatim>\<open>copy(dst, src)\<close> copies as many elements as the shorter slice has.\<close>

definition copySlice :: "memory \<Rightarrow> nat \<Rightarrow> nat \<Rightarrow> memory" where
  "copySlice mem dst src =
     (let n = min (length (arrays mem dst)) (length (arrays mem src))
      in mem\<lparr>arrays := (arrays mem)(dst := take n (arrays mem src) @ drop n (arrays mem dst))\<rparr>)"

text \<open>\<^verbatim>\<open>sort.Slice(x, less)\<close>\<close>

definition sortSlice :: "memory \<Rightarrow> nat \<Rightarrow> (mover \<Rightarrow> mover \<Rightarrow> bool) \<Rightarrow> memory" where
  "sortSlice mem x lessFn =
     mem\<lparr>arrays := (arrays mem)(x := insertionSortLessFunc lessFn (arrays mem x))\<rparr>"

definition sortMoversByRatingAndId_mem :: "memory \<Rightarrow> nat \<Rightarrow> memory \<times> nat" where
  "sortMoversByRatingAndId_mem mem movers =
     (let (mem1, moversCopy) = makeSlice mem (length (arrays mem movers));
          mem2 = copySlice mem1 moversCopy movers;
          mem3 = sortSlice mem2 moversCopy moverLess
      in (mem3, moversCopy))"

text \<open>GET /movers (\<^verbatim>\<open>getMovers\<close>); \<open>movers\<close> is the address held by the global.\<close>

definition getMovers :: "memory \<Rightarrow> nat \<Rightarrow> memory \<times> response list" where
  "getMovers mem movers =
     (if length (arrays mem movers) = 0
      then (mem, [(StatusNotFound, ErrorH ''movers list is empty'')])
      else (let (mem', sortedMovers) = sortMoversByRatingAndId_mem mem movers
            in (mem', [(StatusOK, MoversBody (arrays mem' sortedMovers))])))"

text \<open>
  The variant of \<^verbatim>\<open>main.go\<close>: \<^verbatim>\<open>sortMoversByRateAndID\<close> sorts the slice it is given, which
  is the global, and \<^verbatim>\<open>getMovers\<close> answers 400 on an empty store.
\<close>

definition sortMoversByRateAndID :: "memory \<Rightarrow> nat \<Rightarrow> memory" where
  "sortMoversByRateAndID mem movers = sortSlice mem movers moverLess"

definition getMovers_main :: "memory \<Rightarrow> nat \<Rightarrow> memory \<times> response list" where
  "getMovers_main mem movers =
     (if length (arrays mem movers) = 0
      then (mem, [(StatusBadRequest, ErrorH ''movers list is empty'')])
      else (let mem' = sortMoversByRateAndID mem movers
            in (mem', [(StatusOK, MoversBody (arrays mem' movers))])))"

section \<open>Sample data\<close>

text \<open>
  The first record of the seeded store, a review body with a given rating, and the
  records and stores on which the theorems below are evaluated.
\<close>

definition seedMover :: mover where
  "seedMover = \<lparr>ID = 1, Name = ''San Francisco MOV'', Rating = Finite (46 / 10),
                TelephoneNumber = ''+15615557689'', JobsAmount = 3780\<rparr>"

definition review :: "real \<Rightarrow> mover" where
  "review x = zeroMover\<lparr>Rating := Finite x\<rparr>"


definition minusOneJobs :: mover where
  "minusOneJobs = \<lparr>ID = 17, Name = ''Minus One'', Rating = Finite 4,
                   TelephoneNumber = ''+10000000001'', JobsAmount = - 1\<rparr>"

definition lowMover :: mover where
  "lowMover = \<lparr>ID = 1, Name = ''Low'', Rating = Finite 1,
               TelephoneNumber = ''+10000000010'', JobsAmount = 10\<rparr>"

definition unratedMover :: mover where
  "unratedMover = \<lparr>ID = 2, Name = ''Unrated'', Rating = Finite 0,
                   TelephoneNumber = ''+10000000020'', JobsAmount = - 1\<rparr>"

definition highMover :: mover where
  "highMover = \<lparr>ID = 3, Name = ''High'', Rating = Finite 2,
                TelephoneNumber = ''+10000000030'', JobsAmount = 10\<rparr>"

definition nanStore :: "mover list" where
  "nanStore = [lowMover, unratedMover\<lparr>Rating := NaN, JobsAmount := 0\<rparr>, highMover]"

definition threeMovers :: "mover list" where
  "threeMovers = [lowMover, seedMover\<lparr>ID := 4, Rating := Finite 2\<rparr>, highMover]"

definition emptyStore :: memory where
  "emptyStore = \<lparr>arrays = (\<lambda>a. []), nextFree = 1\<rparr>"

definition twoMovers :: memory where
  "twoMovers = \<lparr>arrays = (\<lambda>a. [])(0 := [lowMover, highMover]), nextFree = 1\<rparr>"

section \<open>Lookup and the uniqueness checks\<close>


lemma findMoverIndexById_Some:
  "findMoverIndexById ms i = Some k \<Longrightarrow>
     k < length ms \<and> ID (ms ! k) = i \<and> (\<forall>j<k. ID (ms ! j) \<noteq> i)"
proof (induction ms arbitrary: k)
  case Nil
  then show ?case by simp
next
  case (Cons m ms)
  show ?case
  proof (cases "ID m = i")
    case True
    with Cons.prems show ?thesis by simp
  next
    case False
    with Cons.prems obtain k' where k': "findMoverIndexById ms i = Some k'" "k = Suc k'"
      by auto
    from Cons.IH [OF k'(1)] False k'(2) show ?thesis
      by (auto simp: less_Suc_eq_0_disj)
  qed
qed

lemma findMoverIndexById_None:
  "findMoverIndexById ms i = None \<longleftrightarrow> (\<forall>m \<in> set ms. ID m \<noteq> i)"
  by (induction ms) auto

lemma checkMoverExists_iff:
  "checkMoverExists movers c \<longleftrightarrow> (\<exists>e \<in> set movers. ID e = ID c \<or> Name e = Name c)"
  by (induction movers) auto

lemma checkMoverTelNumber_iff:
  "checkMoverTelNumber movers c \<longleftrightarrow>
     (\<exists>e \<in> set movers. TelephoneNumber e = TelephoneNumber c)"
  by (induction movers) auto

section \<open>The order of float64\<close>

lemma flt_not_feq: "flt a b \<Longrightarrow> \<not> feq b a"
  by (cases a; cases b) auto

lemma feq_trans: "feq a b \<Longrightarrow> feq b c \<Longrightarrow> feq a c"
  by (cases a; cases b; cases c) auto

lemma flt_trans: "flt a b \<Longrightarrow> flt b c \<Longrightarrow> flt a c"
  by (cases a; cases b; cases c) auto

lemma flt_feq_trans: "flt a b \<Longrightarrow> feq b c \<Longrightarrow> flt a c"
  by (cases a; cases b; cases c) auto

lemma feq_flt_trans: "feq a b \<Longrightarrow> flt b c \<Longrightarrow> flt a c"
  by (cases a; cases b; cases c) auto


section \<open>Rating aggregation\<close>



lemma sint_increment_wraps: "sint ((2 ^ 63 - 1 :: 64 word) + 1) = - (2 ^ 63)"
  by simp









text \<open>
  C2. A review whose rating is below 0 or above 5, for an identifier that is found,
  answers 417 and leaves the store as it was: the rating and the job count of the
  record are unchanged.
\<close>

theorem recommendMover_rejects_out_of_range:
  "(flt (Rating u) (Finite 0) \<or> flt (Finite 5) (Rating u)) \<and> getMoverById movers MoverId = Some i \<longrightarrow>
     recommendMover movers (Some MoverId) (Some u) =
       (movers, [(StatusExpectationFailed, ErrorH ''Provided rate should be in range between 0 and 5'')])
     \<and> Rating (fst (recommendMover movers (Some MoverId) (Some u)) ! i) = Rating (movers ! i)
     \<and> JobsAmount (fst (recommendMover movers (Some MoverId) (Some u)) ! i) = JobsAmount (movers ! i)"
proof (intro impI)
  assume a: "(flt (Rating u) (Finite 0) \<or> flt (Finite 5) (Rating u)) \<and> getMoverById movers MoverId = Some i"
  then have "\<not> (fge (Rating u) (Finite 0) \<and> fle (Rating u) (Finite 5))"
    by (cases "Rating u") (auto simp: fge_def fle_def)
  with a have "recommendMover movers (Some MoverId) (Some u) =
       (movers, [(StatusExpectationFailed, ErrorH ''Provided rate should be in range between 0 and 5'')])"
    by (auto simp: recommendMover_def)
  then show "recommendMover movers (Some MoverId) (Some u) =
       (movers, [(StatusExpectationFailed, ErrorH ''Provided rate should be in range between 0 and 5'')])
     \<and> Rating (fst (recommendMover movers (Some MoverId) (Some u)) ! i) = Rating (movers ! i)
     \<and> JobsAmount (fst (recommendMover movers (Some MoverId) (Some u)) ! i) = JobsAmount (movers ! i)"
    by simp
qed

theorem recommendMover_rejects_out_of_range_witness:
  "flt (Finite 5) (Rating (review (51 / 10))) \<and> flt (Rating (review (- 1 / 10))) (Finite 0)
   \<and> getMoverById [seedMover] 1 = Some 0
   \<and> recommendMover [seedMover] (Some 1) (Some (review (51 / 10))) =
       ([seedMover], [(StatusExpectationFailed, ErrorH ''Provided rate should be in range between 0 and 5'')])
   \<and> recommendMover [seedMover] (Some 1) (Some (review (- 1 / 10))) =
       ([seedMover], [(StatusExpectationFailed, ErrorH ''Provided rate should be in range between 0 and 5'')])"
  using recommendMover_rejects_out_of_range [of "review (51 / 10)" "[seedMover]" 1 0]
        recommendMover_rejects_out_of_range [of "review (- 1 / 10)" "[seedMover]" 1 0]
  by (simp add: seedMover_def review_def zeroMover_def)






section \<open>Creation\<close>

text \<open>
  C6. Creation answers 404 \<^verbatim>\<open>Mover already exists\<close> and leaves the store as it was when
  a record has the identifier or the name of the candidate; otherwise it answers 404
  \<^verbatim>\<open>Tel. number is occupied\<close> and leaves the store as it was when a record has its
  telephone number; otherwise it appends the candidate and answers 201.
\<close>

theorem addMover_conflicts:
  "((\<exists>e \<in> set movers. ID e = ID c \<or> Name e = Name c) \<longrightarrow>
      addMover movers (Some c) = (movers, [(StatusNotFound, ErrorH ''Mover already exists'')]))
   \<and> (\<not> (\<exists>e \<in> set movers. ID e = ID c \<or> Name e = Name c)
        \<and> (\<exists>e \<in> set movers. TelephoneNumber e = TelephoneNumber c) \<longrightarrow>
        addMover movers (Some c) = (movers, [(StatusNotFound, ErrorH ''Tel. number is occupied'')]))
   \<and> (\<not> (\<exists>e \<in> set movers. ID e = ID c \<or> Name e = Name c)
        \<and> \<not> (\<exists>e \<in> set movers. TelephoneNumber e = TelephoneNumber c) \<longrightarrow>
        addMover movers (Some c) = (movers @ [c], [(StatusCreated, MoverBody c)]))"
  by (simp add: addMover_def checkMoverExists_iff checkMoverTelNumber_iff)

theorem addMover_conflicts_witness:
  "(\<exists>e \<in> set [seedMover]. ID e = ID (minusOneJobs\<lparr>ID := 1\<rparr>) \<or> Name e = Name (minusOneJobs\<lparr>ID := 1\<rparr>))
   \<and> addMover [seedMover] (Some (minusOneJobs\<lparr>ID := 1\<rparr>)) =
        ([seedMover], [(StatusNotFound, ErrorH ''Mover already exists'')])
   \<and> addMover [seedMover] (Some (minusOneJobs\<lparr>Name := ''San Francisco MOV''\<rparr>)) =
        ([seedMover], [(StatusNotFound, ErrorH ''Mover already exists'')])
   \<and> addMover [seedMover] (Some (minusOneJobs\<lparr>TelephoneNumber := ''+15615557689''\<rparr>)) =
        ([seedMover], [(StatusNotFound, ErrorH ''Tel. number is occupied'')])
   \<and> addMover [seedMover] (Some minusOneJobs) =
        ([seedMover, minusOneJobs], [(StatusCreated, MoverBody minusOneJobs)])"
  using addMover_conflicts [of "[seedMover]" "minusOneJobs\<lparr>ID := 1\<rparr>"]
        addMover_conflicts [of "[seedMover]" "minusOneJobs\<lparr>Name := ''San Francisco MOV''\<rparr>"]
        addMover_conflicts [of "[seedMover]" "minusOneJobs\<lparr>TelephoneNumber := ''+15615557689''\<rparr>"]
        addMover_conflicts [of "[seedMover]" minusOneJobs]
  by (simp add: seedMover_def minusOneJobs_def)

section \<open>Deletion\<close>

text \<open>
  C7. When some record has the identifier, deletion removes the record at the first
  index \<open>k\<close> that has it and keeps the records before and after \<open>k\<close> in their order,
  so the store is one record shorter. When no record has it, deletion answers 404 and
  the store is as before.
\<close>

theorem deleteMover_removes_first_match:
  "((\<exists>m \<in> set movers. ID m = MoverId) \<longrightarrow>
      (\<exists>k. k < length movers \<and> ID (movers ! k) = MoverId \<and> (\<forall>j<k. ID (movers ! j) \<noteq> MoverId)
         \<and> deleteMover movers (Some MoverId) =
             (take k movers @ drop (Suc k) movers, [(StatusOK, MessageH ''Mover deleted successfully'')])
         \<and> movers = take k movers @ movers ! k # drop (Suc k) movers
         \<and> length (fst (deleteMover movers (Some MoverId))) + 1 = length movers))
   \<and> ((\<forall>m \<in> set movers. ID m \<noteq> MoverId) \<longrightarrow>
        deleteMover movers (Some MoverId) = (movers, [(StatusNotFound, MessageH ''Mover not found'')]))"
proof (intro conjI impI)
  assume "\<exists>m \<in> set movers. ID m = MoverId"
  then have "findMoverIndexById movers MoverId \<noteq> None"
    by (simp add: findMoverIndexById_None)
  then obtain k where k: "findMoverIndexById movers MoverId = Some k" by blast
  from findMoverIndexById_Some [OF k]
  have p: "k < length movers" "ID (movers ! k) = MoverId" "\<forall>j<k. ID (movers ! j) \<noteq> MoverId"
    by simp_all
  have d: "deleteMover movers (Some MoverId) =
      (take k movers @ drop (Suc k) movers, [(StatusOK, MessageH ''Mover deleted successfully'')])"
    using k by (simp add: deleteMover_def deleteElement_def)
  have s: "movers = take k movers @ movers ! k # drop (Suc k) movers"
    using p(1) by (simp add: id_take_nth_drop [symmetric])
  have l: "length (fst (deleteMover movers (Some MoverId))) + 1 = length movers"
    using p(1) d by simp
  from p d s l show "\<exists>k. k < length movers \<and> ID (movers ! k) = MoverId \<and> (\<forall>j<k. ID (movers ! j) \<noteq> MoverId)
         \<and> deleteMover movers (Some MoverId) =
             (take k movers @ drop (Suc k) movers, [(StatusOK, MessageH ''Mover deleted successfully'')])
         \<and> movers = take k movers @ movers ! k # drop (Suc k) movers
         \<and> length (fst (deleteMover movers (Some MoverId))) + 1 = length movers"
    by blast
next
  assume "\<forall>m \<in> set movers. ID m \<noteq> MoverId"
  then have "findMoverIndexById movers MoverId = None"
    by (simp add: findMoverIndexById_None)
  then show "deleteMover movers (Some MoverId) =
      (movers, [(StatusNotFound, MessageH ''Mover not found'')])"
    by (simp add: deleteMover_def)
qed

theorem deleteMover_removes_first_match_witness:
  "(\<exists>m \<in> set [seedMover, minusOneJobs, seedMover\<lparr>Name := ''Twin''\<rparr>]. ID m = 1)
   \<and> deleteMover [seedMover, minusOneJobs, seedMover\<lparr>Name := ''Twin''\<rparr>] (Some 1) =
       ([minusOneJobs, seedMover\<lparr>Name := ''Twin''\<rparr>], [(StatusOK, MessageH ''Mover deleted successfully'')])
   \<and> ID seedMover \<noteq> 3 \<and> ID minusOneJobs \<noteq> 3
   \<and> deleteMover [seedMover, minusOneJobs] (Some 3) =
       ([seedMover, minusOneJobs], [(StatusNotFound, MessageH ''Mover not found'')])"
  using deleteMover_removes_first_match [of "[seedMover, minusOneJobs, seedMover\<lparr>Name := ''Twin''\<rparr>]" 1]
        deleteMover_removes_first_match [of "[seedMover, minusOneJobs]" 3]
  by (simp add: seedMover_def minusOneJobs_def deleteMover_def deleteElement_def)

section \<open>Ranking\<close>

lemma moverLess_iff:
  "moverLess a b \<longleftrightarrow>
     fgt (Rating a) (Rating b) \<or> (feq (Rating a) (Rating b) \<and> ID a < ID b)"
  using flt_not_feq [of "Rating b" "Rating a"] by (auto simp: moverLess_def fgt_def)

lemma not_moverLess_iff:
  assumes "Rating a \<noteq> NaN" "Rating b \<noteq> NaN"
  shows "\<not> moverLess a b \<longleftrightarrow>
     flt (Rating a) (Rating b) \<or> (feq (Rating a) (Rating b) \<and> ID b \<le> ID a)"
  using assms by (cases "Rating a"; cases "Rating b") (auto simp: moverLess_def fgt_def)

lemma moverLess_asym: "moverLess a b \<Longrightarrow> \<not> moverLess b a"
  by (cases "Rating a"; cases "Rating b") (auto simp: moverLess_def fgt_def)

lemma moverLess_negtrans:
  assumes "Rating a \<noteq> NaN" "Rating b \<noteq> NaN" "Rating c \<noteq> NaN"
    and "\<not> moverLess a b" "\<not> moverLess b c"
  shows "\<not> moverLess a c"
proof -
  from assms have ab: "flt (Rating a) (Rating b) \<or> (feq (Rating a) (Rating b) \<and> ID b \<le> ID a)"
    by (simp add: not_moverLess_iff)
  from assms have bc: "flt (Rating b) (Rating c) \<or> (feq (Rating b) (Rating c) \<and> ID c \<le> ID b)"
    by (simp add: not_moverLess_iff)
  have "flt (Rating a) (Rating c) \<or> (feq (Rating a) (Rating c) \<and> ID c \<le> ID a)"
  proof (cases "flt (Rating a) (Rating b)")
    case True
    with bc show ?thesis by (blast intro: flt_trans flt_feq_trans)
  next
    case False
    with ab have e: "feq (Rating a) (Rating b)" "ID b \<le> ID a" by simp_all
    from bc show ?thesis
    proof
      assume "flt (Rating b) (Rating c)"
      with e(1) show ?thesis by (blast intro: feq_flt_trans)
    next
      assume "feq (Rating b) (Rating c) \<and> ID c \<le> ID b"
      with e have "feq (Rating a) (Rating c)" "ID c \<le> ID a"
        by (blast intro: feq_trans, simp)
      then show ?thesis by simp
    qed
  qed
  with assms show ?thesis by (simp add: not_moverLess_iff)
qed

subsection \<open>The insertion sort permutes and orders\<close>

lemma mset_insertLeft: "mset (insertLeft f x rp) = add_mset x (mset rp)"
  by (induction rp) auto

lemma mset_insertionLoop: "mset (insertionLoop f rp xs) = mset rp + mset xs"
  by (induction xs arbitrary: rp) (auto simp: mset_insertLeft)

lemma mset_insertionSortLessFunc: "mset (insertionSortLessFunc f xs) = mset xs"
  by (simp add: insertionSortLessFunc_def mset_insertionLoop)

lemma set_insertLeft: "set (insertLeft f x rp) = insert x (set rp)"
  using mset_insertLeft [of f x rp] by (metis set_mset_add_mset_insert set_mset_mset)

lemma sorted_insertLeft:
  assumes asym: "\<forall>a b. f a b \<longrightarrow> \<not> f b a"
    and negtrans: "\<forall>a \<in> A. \<forall>b \<in> A. \<forall>c \<in> A. \<not> f a b \<longrightarrow> \<not> f b c \<longrightarrow> \<not> f a c"
    and "x \<in> A" "set rp \<subseteq> A"
    and "sorted_wrt (\<lambda>a b. \<not> f a b) rp"
  shows "sorted_wrt (\<lambda>a b. \<not> f a b) (insertLeft f x rp)"
  using assms(3-)
proof (induction rp)
  case Nil
  then show ?case by simp
next
  case (Cons y rp)
  show ?case
  proof (cases "f x y")
    case True
    then have "\<not> f y x" using asym by blast
    with True Cons show ?thesis by (auto simp: set_insertLeft)
  next
    case False
    have "\<not> f x z" if "z \<in> set rp" for z
    proof -
      from that Cons.prems have "\<not> f y z" "z \<in> A" "y \<in> A" by auto
      with False \<open>x \<in> A\<close> show ?thesis using negtrans by blast
    qed
    with False Cons.prems show ?thesis by auto
  qed
qed

lemma sorted_insertionLoop:
  assumes asym: "\<forall>a b. f a b \<longrightarrow> \<not> f b a"
    and negtrans: "\<forall>a \<in> A. \<forall>b \<in> A. \<forall>c \<in> A. \<not> f a b \<longrightarrow> \<not> f b c \<longrightarrow> \<not> f a c"
    and "set xs \<subseteq> A" "set rp \<subseteq> A"
    and "sorted_wrt (\<lambda>a b. \<not> f a b) rp"
  shows "sorted_wrt (\<lambda>a b. \<not> f b a) (insertionLoop f rp xs)"
  using assms(3-)
proof (induction xs arbitrary: rp)
  case Nil
  then show ?case by (simp add: sorted_wrt_rev)
next
  case (Cons x xs)
  from Cons.prems have "sorted_wrt (\<lambda>a b. \<not> f a b) (insertLeft f x rp)"
    by (intro sorted_insertLeft [where A = A] asym negtrans) auto
  moreover from Cons.prems have "set (insertLeft f x rp) \<subseteq> A"
    by (simp add: set_insertLeft)
  ultimately show ?case using Cons.IH Cons.prems by simp
qed

lemma sorted_sortMoversByRatingAndId:
  assumes "\<forall>m \<in> set movers. Rating m \<noteq> NaN"
  shows "sorted_wrt (\<lambda>a b. \<not> moverLess b a) (sortMoversByRatingAndId movers)"
  unfolding sortMoversByRatingAndId_def insertionSortLessFunc_def
proof (rule sorted_insertionLoop [where A = "{m. Rating m \<noteq> NaN}"])
  show "\<forall>a b. moverLess a b \<longrightarrow> \<not> moverLess b a" using moverLess_asym by blast
  show "\<forall>a \<in> {m. Rating m \<noteq> NaN}. \<forall>b \<in> {m. Rating m \<noteq> NaN}. \<forall>c \<in> {m. Rating m \<noteq> NaN}.
      \<not> moverLess a b \<longrightarrow> \<not> moverLess b c \<longrightarrow> \<not> moverLess a c"
    using moverLess_negtrans by blast
  show "set movers \<subseteq> {m. Rating m \<noteq> NaN}" using assms by blast
qed simp_all

lemma sorted_permutation_unique:
  assumes total: "\<forall>a \<in> set xs. \<forall>b \<in> set xs. a \<noteq> b \<longrightarrow> f a b \<or> f b a"
    and "sorted_wrt (\<lambda>a b. \<not> f b a) xs" "sorted_wrt (\<lambda>a b. \<not> f b a) ys"
    and "mset xs = mset ys"
  shows "xs = ys"
  using assms
proof (induction xs arbitrary: ys)
  case Nil
  then show ?case by simp
next
  case (Cons x xs)
  from Cons.prems(4) obtain y ys' where ys: "ys = y # ys'"
    by (cases ys) auto
  have sets: "set (x # xs) = set (y # ys')"
    using Cons.prems(4) ys by (metis set_mset_mset)
  have "x = y"
  proof (rule ccontr)
    assume ne: "x \<noteq> y"
    with sets have "x \<in> set ys'" "y \<in> set xs" by auto
    with Cons.prems(2,3) ys have "\<not> f x y" "\<not> f y x" by auto
    moreover from sets have "y \<in> set (x # xs)" by simp
    ultimately show False using Cons.prems(1) ne by auto
  qed
  with Cons.prems ys have "xs = ys'"
    by (intro Cons.IH) auto
  with \<open>x = y\<close> ys show ?case by simp
qed

lemma sortMoversByRatingAndId_unique:
  assumes nan: "\<forall>m \<in> set movers. Rating m \<noteq> NaN"
    and ids: "\<forall>a \<in> set movers. \<forall>b \<in> set movers. ID a = ID b \<longrightarrow> a = b"
    and perm: "mset out = mset movers"
    and sorted: "sorted_wrt (\<lambda>a b. \<not> moverLess b a) out"
  shows "out = sortMoversByRatingAndId movers"
proof (rule sorted_permutation_unique [where f = moverLess])
  have set_out: "set out = set movers" using perm by (metis set_mset_mset)
  show "\<forall>a \<in> set out. \<forall>b \<in> set out. a \<noteq> b \<longrightarrow> moverLess a b \<or> moverLess b a"
  proof (intro ballI impI)
    fix a b
    assume ab: "a \<in> set out" "b \<in> set out" "a \<noteq> b"
    with set_out ids have "ID a \<noteq> ID b" by blast
    moreover from ab set_out nan have "Rating a \<noteq> NaN" "Rating b \<noteq> NaN" by auto
    ultimately show "moverLess a b \<or> moverLess b a"
      by (cases "Rating a"; cases "Rating b") (auto simp: moverLess_def fgt_def)
  qed
  show "sorted_wrt (\<lambda>a b. \<not> moverLess b a) out" by (rule sorted)
  show "sorted_wrt (\<lambda>a b. \<not> moverLess b a) (sortMoversByRatingAndId movers)"
    by (rule sorted_sortMoversByRatingAndId [OF nan])
  show "mset out = mset (sortMoversByRatingAndId movers)"
    using perm by (simp add: sortMoversByRatingAndId_def mset_insertionSortLessFunc)
qed

text \<open>
  In a slice that the comparator orders, whatever sort produced it, an element that is
  less than another stands before it.
\<close>

lemma sorted_wrt_moverLess_pairs:
  assumes "sorted_wrt (\<lambda>a b. \<not> moverLess b a) out"
    and "i < length out \<and> j < length out" and "moverLess (out ! i) (out ! j)"
  shows "i < j"
proof (rule ccontr)
  assume "\<not> i < j"
  then consider "i = j" | "j < i" by linarith
  then show False
  proof cases
    case 1
    with assms(3) show False using moverLess_asym by blast
  next
    case 2
    with assms(1,2) have "\<not> moverLess (out ! i) (out ! j)"
      by (simp add: sorted_wrt_iff_nth_less)
    with assms(3) show False by simp
  qed
qed

subsection \<open>The insertion sort leaves an ordered slice as it is\<close>







text \<open>
  C3, as amended. When no rating is NaN, the ranked sequence is a permutation of the
  collection in which a record with a greater rating stands before a record with a
  smaller one, and of two records with equal ratings the one with the lower identifier
  stands first.
\<close>

theorem ranking_order:
  "(\<forall>m \<in> set movers. Rating m \<noteq> NaN) \<longrightarrow>
     mset (sortMoversByRatingAndId movers) = mset movers
     \<and> (\<forall>i j. i < length (sortMoversByRatingAndId movers)
               \<and> j < length (sortMoversByRatingAndId movers) \<longrightarrow>
          (fgt (Rating (sortMoversByRatingAndId movers ! i)) (Rating (sortMoversByRatingAndId movers ! j))
             \<longrightarrow> i < j)
          \<and> (feq (Rating (sortMoversByRatingAndId movers ! i)) (Rating (sortMoversByRatingAndId movers ! j))
              \<and> ID (sortMoversByRatingAndId movers ! i) < ID (sortMoversByRatingAndId movers ! j)
             \<longrightarrow> i < j))"
proof (intro impI conjI allI)
  show "mset (sortMoversByRatingAndId movers) = mset movers"
    by (simp add: sortMoversByRatingAndId_def mset_insertionSortLessFunc)
  fix i j
  assume nan: "\<forall>m \<in> set movers. Rating m \<noteq> NaN"
    and ij: "i < length (sortMoversByRatingAndId movers) \<and> j < length (sortMoversByRatingAndId movers)"
  let ?out = "sortMoversByRatingAndId movers"
  have ordered: "i < j" if "moverLess (?out ! i) (?out ! j)"
    using sorted_wrt_moverLess_pairs [OF sorted_sortMoversByRatingAndId [OF nan]] ij that
    by blast
  show "i < j" if "fgt (Rating (?out ! i)) (Rating (?out ! j))"
  proof -
    from that have "moverLess (?out ! i) (?out ! j)" by (simp add: moverLess_iff)
    then show ?thesis by (rule ordered)
  qed
  show "i < j" if "feq (Rating (?out ! i)) (Rating (?out ! j)) \<and> ID (?out ! i) < ID (?out ! j)"
  proof -
    from that have "moverLess (?out ! i) (?out ! j)" by (simp add: moverLess_iff)
    then show ?thesis by (rule ordered)
  qed
qed

theorem ranking_order_witness:
  "Rating lowMover \<noteq> NaN \<and> Rating (seedMover\<lparr>ID := 4, Rating := Finite 2\<rparr>) \<noteq> NaN
   \<and> Rating highMover \<noteq> NaN
   \<and> sortMoversByRatingAndId threeMovers =
       [highMover, seedMover\<lparr>ID := 4, Rating := Finite 2\<rparr>, lowMover]
   \<and> mset (sortMoversByRatingAndId threeMovers) = mset threeMovers
   \<and> fgt (Rating (sortMoversByRatingAndId threeMovers ! 1))
          (Rating (sortMoversByRatingAndId threeMovers ! 2))
   \<and> feq (Rating (sortMoversByRatingAndId threeMovers ! 0))
          (Rating (sortMoversByRatingAndId threeMovers ! 1))
   \<and> ID (sortMoversByRatingAndId threeMovers ! 0) < ID (sortMoversByRatingAndId threeMovers ! 1)"
proof -
  have each: "Rating lowMover \<noteq> NaN" "Rating (seedMover\<lparr>ID := 4, Rating := Finite 2\<rparr>) \<noteq> NaN"
      "Rating highMover \<noteq> NaN"
    by (simp_all add: lowMover_def highMover_def seedMover_def)
  then have nan: "\<forall>m \<in> set threeMovers. Rating m \<noteq> NaN"
    by (simp add: threeMovers_def)
  have out: "sortMoversByRatingAndId threeMovers =
      [highMover, seedMover\<lparr>ID := 4, Rating := Finite 2\<rparr>, lowMover]"
    by (simp add: threeMovers_def lowMover_def highMover_def seedMover_def fgt_def
        sortMoversByRatingAndId_def insertionSortLessFunc_def moverLess_def)
  from nan ranking_order [of threeMovers]
  have perm: "mset (sortMoversByRatingAndId threeMovers) = mset threeMovers"
    by blast
  have pairs: "fgt (Rating (sortMoversByRatingAndId threeMovers ! 1))
          (Rating (sortMoversByRatingAndId threeMovers ! 2))"
      "feq (Rating (sortMoversByRatingAndId threeMovers ! 0))
          (Rating (sortMoversByRatingAndId threeMovers ! 1))"
      "ID (sortMoversByRatingAndId threeMovers ! 0) < ID (sortMoversByRatingAndId threeMovers ! 1)"
    by (simp_all add: out lowMover_def highMover_def seedMover_def fgt_def)
  from each out perm pairs show ?thesis by (intro conjI)
qed

text \<open>
  C3 as stated fails on a rating that is NaN. A review of 0 for a record with rating 0
  and job count \<open>-1\<close> stores NaN; in the store that results the record with rating 2
  stays behind the record with rating 1.
\<close>

theorem ranking_order_counterexample:
  "recommendMover [lowMover, unratedMover, highMover] (Some 2) (Some (review 0)) =
     (nanStore, [(StatusOK, MoverBody (unratedMover\<lparr>Rating := NaN, JobsAmount := 0\<rparr>))])
   \<and> sortMoversByRatingAndId nanStore = nanStore
   \<and> fgt (Rating (sortMoversByRatingAndId nanStore ! 2)) (Rating (sortMoversByRatingAndId nanStore ! 0))
   \<and> \<not> (2 :: nat) < 0"
  by (simp add: nanStore_def lowMover_def unratedMover_def highMover_def review_def zeroMover_def
      recommendMover_def newRating_def float64_def fge_def fle_def fgt_def Let_def
      sortMoversByRatingAndId_def insertionSortLessFunc_def moverLess_def)


section \<open>Listing\<close>

lemma sortMoversByRatingAndId_mem_fresh:
  assumes "movers < nextFree mem"
  shows "sortMoversByRatingAndId_mem mem movers =
     (mem\<lparr>arrays := (arrays mem)(nextFree mem := sortMoversByRatingAndId (arrays mem movers)),
           nextFree := nextFree mem + 1\<rparr>,
      nextFree mem)"
  using assms
  by (simp add: sortMoversByRatingAndId_mem_def makeSlice_def copySlice_def sortSlice_def Let_def
      sortMoversByRatingAndId_def)

text \<open>
  C4. In the most complete variant the listing sorts a fresh copy: when the array of
  the global slice is allocated, the slice that \<open>sortMoversByRatingAndId\<close> returns has
  another array, every allocated array, the one of the store among them, has the same
  contents in the same order after \<open>getMovers\<close> as before, and the answer for a store
  that is not empty is the ranking of its contents.
\<close>

theorem getMovers_leaves_store:
  "movers < nextFree mem \<longrightarrow>
     snd (sortMoversByRatingAndId_mem mem movers) \<noteq> movers
     \<and> arrays (fst (getMovers mem movers)) movers = arrays mem movers
     \<and> (\<forall>a < nextFree mem. arrays (fst (getMovers mem movers)) a = arrays mem a)
     \<and> (arrays mem movers \<noteq> [] \<longrightarrow>
          snd (getMovers mem movers) =
            [(StatusOK, MoversBody (sortMoversByRatingAndId (arrays mem movers)))])"
  by (simp add: getMovers_def sortMoversByRatingAndId_mem_fresh)

theorem getMovers_leaves_store_witness:
  "(0 :: nat) < nextFree twoMovers
   \<and> arrays twoMovers 0 = [lowMover, highMover]
   \<and> arrays (fst (getMovers twoMovers 0)) 0 = [lowMover, highMover]
   \<and> snd (getMovers twoMovers 0) = [(StatusOK, MoversBody [highMover, lowMover])]"
  using getMovers_leaves_store [of 0 twoMovers]
  by (simp add: twoMovers_def lowMover_def highMover_def
      sortMoversByRatingAndId_def insertionSortLessFunc_def moverLess_def fgt_def)

text \<open>The variant of \<^verbatim>\<open>main.go\<close> sorts the array of the store itself.\<close>

lemma getMovers_main_reorders_store:
  "arrays (fst (getMovers_main twoMovers 0)) 0 = [highMover, lowMover]"
  by (simp add: getMovers_main_def sortMoversByRateAndID_def sortSlice_def twoMovers_def
      lowMover_def highMover_def insertionSortLessFunc_def moverLess_def fgt_def)

text \<open>
  C8. Listing an empty store answers an error, 404 in the most complete variant and
  400 in \<^verbatim>\<open>main.go\<close>, not 200 with an empty list, and leaves memory as it was.
\<close>

theorem getMovers_empty_store:
  "arrays mem movers = [] \<longrightarrow>
     getMovers mem movers = (mem, [(StatusNotFound, ErrorH ''movers list is empty'')])
     \<and> getMovers_main mem movers = (mem, [(StatusBadRequest, ErrorH ''movers list is empty'')])
     \<and> snd (getMovers mem movers) \<noteq> [(StatusOK, MoversBody [])]
     \<and> snd (getMovers_main mem movers) \<noteq> [(StatusOK, MoversBody [])]"
  by (simp add: getMovers_def getMovers_main_def)

theorem getMovers_empty_store_witness:
  "arrays emptyStore 0 = []
   \<and> getMovers emptyStore 0 = (emptyStore, [(StatusNotFound, ErrorH ''movers list is empty'')])
   \<and> getMovers_main emptyStore 0 = (emptyStore, [(StatusBadRequest, ErrorH ''movers list is empty'')])"
  using getMovers_empty_store [of emptyStore 0]
  by (simp add: emptyStore_def)

end
